theory Spec2Isabelle
  imports Complex_Main "HOL-Library.Sublist"
begin

section \<open>Data model\<close>

text \<open>
  The three front ends (\<^verbatim>\<open>windows_config_manager.py\<close>, \<^verbatim>\<open>streamlit_config_app.py\<close>,
  \<^verbatim>\<open>dashboard.py\<close>) pass a snapshot around as a dictionary with the keys below.  Python
  floats are modelled as reals: the code only compares them with integer constants and
  adds two of them.  Definitions taken from \<^verbatim>\<open>WindowsConfigManager\<close> carry the prefix
  \<open>wcm\<close>, those from the Streamlit \<^verbatim>\<open>ConfigManager\<close> the prefix \<open>cm\<close>, those from the
  Flask dashboard the prefix \<open>dash\<close>; a function that is literally the same in two files
  is defined once.
\<close>

record metrics =
  timestamp :: string
  cpu_percent :: real
  memory_percent :: real
  memory_available_gb :: real
  disk_percent :: real
  process_count :: int
  cpu_freq :: real

section \<open>State classification\<close>

text \<open>
  \<^verbatim>\<open>analyze_system_state\<close> of \<^verbatim>\<open>windows_config_manager.py\<close> (lines 38-51) and of
  \<^verbatim>\<open>dashboard.py\<close> (lines 306-317): the same cascade, returning the state's name.
\<close>

definition analyze_system_state :: "metrics \<Rightarrow> string" where
  "analyze_system_state m =
     (let cpu = cpu_percent m; mem = memory_percent m in
      if cpu > 80 \<or> mem > 85 then ''CRITICAL''
      else if cpu > 60 \<or> mem > 70 then ''HIGH_LOAD''
      else if cpu > 30 \<or> mem > 50 then ''MODERATE''
      else ''IDLE'')"

text \<open>
  \<^verbatim>\<open>ConfigManager.analyze_state\<close> of \<^verbatim>\<open>streamlit_config_app.py\<close> (lines 92-104) returns
  a display label together with a colour.
\<close>

definition analyze_state :: "metrics \<Rightarrow> string \<times> string" where
  "analyze_state m =
     (let cpu = cpu_percent m; mem = memory_percent m in
      if cpu > 80 \<or> mem > 85 then (''CRITICAL'', ''#ff0000'')
      else if cpu > 60 \<or> mem > 70 then (''HIGH LOAD'', ''#ff9900'')
      else if cpu > 30 \<or> mem > 50 then (''MODERATE'', ''#3399ff'')
      else (''OPTIMAL'', ''#00ff00''))"

text \<open>
  The dictionary \<^verbatim>\<open>state_map\<close> of \<^verbatim>\<open>WindowsConfigManager.train_model\<close> (line 152) numbers
  the states by severity; \<^verbatim>\<open>predict_state\<close> (line 187) holds its inverse.
\<close>

definition state_map :: "(string \<times> nat) list" where
  "state_map = [(''IDLE'', 0), (''MODERATE'', 1), (''HIGH_LOAD'', 2), (''CRITICAL'', 3)]"

definition state_map_inv :: "(nat \<times> string) list" where
  "state_map_inv = [(0, ''IDLE''), (1, ''MODERATE''), (2, ''HIGH_LOAD''), (3, ''CRITICAL'')]"

text \<open>A snapshot with the given CPU and memory readings; the other fields are arbitrary.\<close>

definition snapshot :: "real \<Rightarrow> real \<Rightarrow> metrics" where
  "snapshot cpu mem =
     \<lparr>timestamp = ''2024-01-01T00:00:00'', cpu_percent = cpu, memory_percent = mem,
      memory_available_gb = 4, disk_percent = 10, process_count = 100, cpu_freq = 0\<rparr>"

section \<open>Process ranking\<close>

text \<open>
  \<^verbatim>\<open>get_top_processes\<close> of \<^verbatim>\<open>windows_config_manager.py\<close> (lines 112-129) and of
  \<^verbatim>\<open>dashboard.py\<close> (lines 355-370), the same code.  \<^verbatim>\<open>psutil.process_iter\<close> is the
  environment: its enumeration is an argument, and each enumerated process either raises
  one of the two exceptions the loop catches or yields its \<^verbatim>\<open>info\<close> dictionary, whose two
  percentages are floats.
\<close>

datatype psutil_error = NoSuchProcess | AccessDenied

record proc_info =
  info_name :: string
  info_cpu_percent :: real
  info_memory_percent :: real

datatype proc = Fails psutil_error | Info proc_info

record process =
  name :: string
  cpu :: real
  memory :: real

text \<open>The \<^verbatim>\<open>for\<close> loop: the entries appended to \<^verbatim>\<open>processes\<close>, in enumeration order.\<close>

fun collect_processes :: "proc list \<Rightarrow> process list" where
  "collect_processes [] = []"
| "collect_processes (Fails e # ps) = collect_processes ps"
| "collect_processes (Info i # ps) =
     (if info_cpu_percent i > 0 \<or> info_memory_percent i > 0
      then \<lparr>name = info_name i, cpu = info_cpu_percent i, memory = info_memory_percent i\<rparr>
             # collect_processes ps
      else collect_processes ps)"

text \<open>
  Every enumerated process that yields its \<^verbatim>\<open>info\<close>, as the entry the loop would build
  from it: the enumeration order against which the ranking is stated.
\<close>

fun entries :: "proc list \<Rightarrow> process list" where
  "entries [] = []"
| "entries (Fails e # ps) = entries ps"
| "entries (Info i # ps) =
     \<lparr>name = info_name i, cpu = info_cpu_percent i, memory = info_memory_percent i\<rparr>
       # entries ps"

text \<open>
  \<^verbatim>\<open>list.sort(key=..., reverse=True)\<close>: Python's sort is stable, also with
  \<^verbatim>\<open>reverse=True\<close>, so it is the stable insertion sort on the negated key.
\<close>

definition sort_reverse :: "('a \<Rightarrow> real) \<Rightarrow> 'a list \<Rightarrow> 'a list" where
  "sort_reverse key xs = sort_key (\<lambda>x. - key x) xs"

text \<open>The slice \<^verbatim>\<open>xs[:n]\<close>; a negative \<open>n\<close> counts from the end.\<close>

definition slice_to :: "int \<Rightarrow> 'a list \<Rightarrow> 'a list" where
  "slice_to n xs = (if 0 \<le> n then take (nat n) xs else take (length xs - nat (- n)) xs)"

definition usage :: "process \<Rightarrow> real" where
  "usage x = cpu x + memory x"

definition get_top_processes :: "proc list \<Rightarrow> int \<Rightarrow> process list" where
  "get_top_processes procs n = slice_to n (sort_reverse usage (collect_processes procs))"

section \<open>Recommendations\<close>

text \<open>
  A recommendation is a dictionary with string keys.  Its \<^verbatim>\<open>actions\<close> are lines of text;
  the lines built by an f-string keep the interpolated numbers and leave the rendering
  (\<^verbatim>\<open>:.1f\<close>) symbolic.  The pictograph that opens most lines of the source is outside
  ASCII and is left out of the literals.
\<close>

datatype action =
    Line string
  | Memory_Usage real
  | CPU_Usage real
  | Top_Consumers
  | Consumer string real real

datatype dict_value = Str string | Actions "action list"

type_synonym recommendations = "string \<rightharpoonup> dict_value"

text \<open>
  \<^verbatim>\<open>WindowsConfigManager.get_recommendations\<close> (lines 53-110).  The dictionary starts
  with priority \<^verbatim>\<open>LOW\<close> and no action; the branch of the state overwrites both; the
  lines of the top five processes are appended when there are any.
\<close>

definition with_actions :: "recommendations \<Rightarrow> action list \<Rightarrow> recommendations" where
  "with_actions r extra =
     (case r ''actions'' of
        Some (Actions as) \<Rightarrow> r(''actions'' \<mapsto> Actions (as @ extra))
      | _ \<Rightarrow> r)"

definition wcm_get_recommendations :: "proc list \<Rightarrow> metrics \<Rightarrow> string \<Rightarrow> recommendations" where
  "wcm_get_recommendations procs m state =
     (let recommendations =
            [''state'' \<mapsto> Str state, ''actions'' \<mapsto> Actions [], ''priority'' \<mapsto> Str ''LOW''];
          recommendations =
            (if state = ''CRITICAL'' then
               recommendations(''priority'' \<mapsto> Str ''CRITICAL'',
                 ''actions'' \<mapsto> Actions
                   [Line ''CRITICAL: System under heavy load'',
                    Line ''Close unnecessary applications immediately'',
                    Line ''Disable startup programs'',
                    Line ''Clear temporary files'',
                    Line ''Restart high-memory processes'',
                    Memory_Usage (memory_percent m),
                    CPU_Usage (cpu_percent m)])
             else if state = ''HIGH_LOAD'' then
               recommendations(''priority'' \<mapsto> Str ''HIGH'',
                 ''actions'' \<mapsto> Actions
                   [Line ''System experiencing high load'',
                    Line ''Consider closing browser tabs'',
                    Line ''Disable background apps'',
                    Line ''Check for Windows updates running'',
                    Memory_Usage (memory_percent m),
                    CPU_Usage (cpu_percent m)])
             else if state = ''MODERATE'' then
               recommendations(''priority'' \<mapsto> Str ''MEDIUM'',
                 ''actions'' \<mapsto> Actions
                   [Line ''System running normally'',
                    Line ''Performance optimizations available'',
                    Line ''Consider disk cleanup if needed'',
                    Memory_Usage (memory_percent m),
                    CPU_Usage (cpu_percent m)])
             else
               recommendations(''priority'' \<mapsto> Str ''LOW'',
                 ''actions'' \<mapsto> Actions
                   [Line ''System running optimally'',
                    Line ''No immediate actions needed'',
                    Line ''Good time for maintenance tasks'',
                    Memory_Usage (memory_percent m),
                    CPU_Usage (cpu_percent m)]));
          top_processes = get_top_processes procs 5
      in if top_processes \<noteq> []
         then with_actions recommendations
                (Top_Consumers # map (\<lambda>p. Consumer (name p) (cpu p) (memory p)) top_processes)
         else recommendations)"

text \<open>
  \<^verbatim>\<open>get_recommendations\<close> of \<^verbatim>\<open>dashboard.py\<close> (lines 319-353): the dictionary has the
  keys \<^verbatim>\<open>state\<close> and \<^verbatim>\<open>actions\<close> only.
\<close>

definition dash_get_recommendations :: "metrics \<Rightarrow> string \<Rightarrow> recommendations" where
  "dash_get_recommendations m state =
     (let recommendations = [''state'' \<mapsto> Str state, ''actions'' \<mapsto> Actions []]
      in if state = ''CRITICAL'' then
           recommendations(''actions'' \<mapsto> Actions
             [Line ''CRITICAL: System under heavy load'',
              Line ''Close unnecessary applications immediately'',
              Line ''Disable startup programs'',
              Line ''Clear temporary files'',
              Memory_Usage (memory_percent m),
              CPU_Usage (cpu_percent m)])
         else if state = ''HIGH_LOAD'' then
           recommendations(''actions'' \<mapsto> Actions
             [Line ''System experiencing high load'',
              Line ''Consider closing browser tabs'',
              Line ''Disable background apps'',
              Line ''Check for Windows updates running'',
              Memory_Usage (memory_percent m)])
         else if state = ''MODERATE'' then
           recommendations(''actions'' \<mapsto> Actions
             [Line ''System running normally'',
              Line ''Performance optimizations available'',
              Line ''Consider disk cleanup if needed'',
              Memory_Usage (memory_percent m)])
         else
           recommendations(''actions'' \<mapsto> Actions
             [Line ''System running optimally'',
              Line ''No immediate actions needed'',
              Line ''Good time for maintenance tasks'']))"

section \<open>The manager object, the files and the libraries\<close>

text \<open>
  \<^verbatim>\<open>WindowsConfigManager\<close> and the Streamlit \<^verbatim>\<open>ConfigManager\<close> hold the same three
  attributes.  What the methods print (or hand to \<^verbatim>\<open>st.error\<close>) is collected in
  \<open>console\<close>; the pictograph that opens a printed line is kept as the line's constructor.
\<close>

datatype printed = Warning string | Notice string | Success string | Failure string

record ('mdl, 'scl) manager =
  metrics_history :: "metrics list"
  model :: "'mdl option"
  scaler :: "'scl"
  console :: "printed list"

text \<open>
  A Python \<^verbatim>\<open>str\<close> that is read from a file is the list of its code points; \<open>ascii\<close>
  gives the code points of a literal.
\<close>

type_synonym py_str = "nat list"

definition ascii :: "string \<Rightarrow> py_str" where
  "ascii s = map of_char s"

text \<open>
  The two files of a manager.  Reading the metrics file gives its text, or raises when
  the bytes on disk do not decode; the model file holds the pickled pair of model and
  scaler.  Opening a file for writing raises \<^verbatim>\<open>OSError\<close> when \<open>write_error\<close> carries the
  error's message, and replaces the whole content otherwise.
\<close>

datatype py_error =
    KeyError | TypeError | UnicodeDecodeError | JSONDecodeError | RecursionError
  | OSError string

datatype file_text = Undecodable | Text py_str

record ('mdl, 'scl) disk =
  metrics_json :: "file_text option"
  model_pkl :: "('mdl \<times> 'scl) option"
  write_error :: "string option"

text \<open>
  \<^verbatim>\<open>scikit-learn\<close> is a parameter: a new \<^verbatim>\<open>StandardScaler()\<close>, its \<^verbatim>\<open>fit\<close> and
  \<^verbatim>\<open>transform\<close> (of one row), \<^verbatim>\<open>DecisionTreeClassifier(max_depth=4, random_state=42).fit\<close>
  and the prediction for one row.
\<close>

record ('mdl, 'scl) sklearn =
  new_scaler :: "'scl"
  scaler_fit :: "'scl \<Rightarrow> real list list \<Rightarrow> 'scl"
  scaler_transform :: "'scl \<Rightarrow> real list \<Rightarrow> real list"
  tree_fit :: "real list list \<Rightarrow> nat list \<Rightarrow> 'mdl"
  tree_predict :: "'mdl \<Rightarrow> real list \<Rightarrow> nat"

text \<open>
  The \<^verbatim>\<open>json\<close> module is a parameter as well.  \<^verbatim>\<open>json.dump\<close> of a list writes an
  opening bracket, the items and a closing bracket.  \<^verbatim>\<open>json.loads\<close> raises
  (\<^verbatim>\<open>JSONDecodeError\<close> on text that is no JSON, \<^verbatim>\<open>RecursionError\<close> on text nested too
  deep) or returns a value: a list of snapshots, or another value that has a length (a
  dictionary, a string, a list of anything else), or a value that has none (a number,
  \<^verbatim>\<open>true\<close>, \<^verbatim>\<open>false\<close>, \<^verbatim>\<open>null\<close>).
\<close>

datatype parsed = Snapshots "metrics list" | Sized nat | Unsized

record codec =
  json_items :: "metrics list \<Rightarrow> py_str"
  json_loads :: "py_str \<Rightarrow> py_error + parsed"

definition json_dump :: "codec \<Rightarrow> metrics list \<Rightarrow> py_str" where
  "json_dump c h = ascii ''['' @ json_items c h @ ascii '']''"

text \<open>
  \<^verbatim>\<open>str.strip()\<close> removes at both ends the characters for which \<^verbatim>\<open>str.isspace\<close> holds:
  U+0009 to U+000D, U+001C to U+0020, U+0085, U+00A0, U+1680, U+2000 to U+200A, U+2028,
  U+2029, U+202F, U+205F and U+3000.
\<close>

definition is_space :: "nat \<Rightarrow> bool" where
  "is_space cp =
     ((9 \<le> cp \<and> cp \<le> 13) \<or> (28 \<le> cp \<and> cp \<le> 32) \<or> cp = 133 \<or> cp = 160 \<or> cp = 5760
      \<or> (8192 \<le> cp \<and> cp \<le> 8202) \<or> cp = 8232 \<or> cp = 8233 \<or> cp = 8239 \<or> cp = 8287
      \<or> cp = 12288)"

definition strip :: "py_str \<Rightarrow> py_str" where
  "strip s = rev (dropWhile is_space (rev (dropWhile is_space s)))"

text \<open>
  How a call that loads the history returns: with the manager as given (\<open>Log\<close>), or with
  that manager but for its attribute \<^verbatim>\<open>metrics_history\<close>, which is bound to the value
  that \<^verbatim>\<open>json.loads\<close> returned and that is no list of snapshots (\<open>No_log\<close>).
\<close>

datatype 'st loaded = Log 'st | No_log 'st

fun manager_after :: "'st loaded \<Rightarrow> 'st" where
  "manager_after (Log st) = st"
| "manager_after (No_log st) = st"

text \<open>The decimal digits of a length, as an f-string prints them.\<close>

fun decimal :: "nat \<Rightarrow> string" where
  "decimal n = (if n < 10 then [char_of (48 + n)]
                else decimal (n div 10) @ [char_of (48 + n mod 10)])"

definition print :: "printed \<Rightarrow> ('mdl, 'scl) manager \<Rightarrow> ('mdl, 'scl) manager" where
  "print line st = st\<lparr>console := console st @ [line]\<rparr>"

text \<open>\<^verbatim>\<open>__init__\<close> of both classes.\<close>

definition init :: "('mdl, 'scl) sklearn \<Rightarrow> ('mdl, 'scl) manager" where
  "init lib = \<lparr>metrics_history = [], model = None, scaler = new_scaler lib, console = []\<rparr>"

section \<open>The history store\<close>

text \<open>\<^verbatim>\<open>WindowsConfigManager.save_metrics\<close> (lines 190-193).\<close>

definition wcm_save_metrics ::
  "codec \<Rightarrow> ('mdl, 'scl) manager \<Rightarrow> ('mdl, 'scl) disk \<Rightarrow> py_error + ('mdl, 'scl) disk" where
  "wcm_save_metrics c st d =
     (case write_error d of
        Some msg \<Rightarrow> Inl (OSError msg)
      | None \<Rightarrow> Inr (d\<lparr>metrics_json := Some (Text (json_dump c (metrics_history st)))\<rparr>))"

text \<open>
  \<^verbatim>\<open>WindowsConfigManager.load_metrics\<close> (lines 195-211).  Only \<^verbatim>\<open>JSONDecodeError\<close> is
  caught; an absent file leaves the history as it is.  Line 203 takes \<^verbatim>\<open>len\<close> of what
  \<^verbatim>\<open>json.loads\<close> returned, which raises \<^verbatim>\<open>TypeError\<close> on a value without length.
\<close>

definition wcm_load_metrics ::
  "codec \<Rightarrow> ('mdl, 'scl) disk \<Rightarrow> ('mdl, 'scl) manager
     \<Rightarrow> py_error + ('mdl, 'scl) manager loaded" where
  "wcm_load_metrics c d st =
     (case metrics_json d of
        Some f \<Rightarrow>
          (case f of
             Undecodable \<Rightarrow> Inl UnicodeDecodeError
           | Text t \<Rightarrow>
               (let content = strip t in
                if content \<noteq> [] then
                  (case json_loads c content of
                     Inr (Snapshots h) \<Rightarrow>
                       Inr (Log (print (Success (''Loaded '' @ decimal (length h)
                                                  @ '' historical records''))
                                   (st\<lparr>metrics_history := h\<rparr>)))
                   | Inr (Sized n) \<Rightarrow>
                       Inr (No_log (print (Success (''Loaded '' @ decimal n
                                                     @ '' historical records'')) st))
                   | Inr Unsized \<Rightarrow> Inl TypeError
                   | Inl e \<Rightarrow>
                       if e = JSONDecodeError
                       then Inr (Log ((print (Warning ''Corrupted metrics file, starting fresh'')
                                         st) \<lparr>metrics_history := []\<rparr>))
                       else Inl e)
                else
                  Inr (Log ((print (Warning ''Empty metrics file, starting fresh'') st)
                              \<lparr>metrics_history := []\<rparr>))))
      | None \<Rightarrow> Inr (Log (print (Notice ''No previous data found, starting fresh'') st)))"

text \<open>
  The loop of \<^verbatim>\<open>WindowsConfigManager.run_monitoring\<close> (lines 247-282).  The clock decides
  how often the body runs; the argument lists the snapshots that \<^verbatim>\<open>collect_system_metrics\<close>
  returns, one for each run of the body.  The body appends the snapshot (line 263) and
  saves at every third sample; the report it prints is left out.
\<close>

fun monitoring_loop ::
  "codec \<Rightarrow> nat \<Rightarrow> metrics list \<Rightarrow> ('mdl, 'scl) manager \<times> ('mdl, 'scl) disk
     \<Rightarrow> py_error + ('mdl, 'scl) manager \<times> ('mdl, 'scl) disk" where
  "monitoring_loop c count [] (st, d) = Inr (st, d)"
| "monitoring_loop c count (m # ms) (st, d) =
     (let count = count + 1;
          st = st\<lparr>metrics_history := metrics_history st @ [m]\<rparr>
      in if count mod 3 = 0 then
           (case wcm_save_metrics c st d of
              Inl e \<Rightarrow> Inl e
            | Inr d \<Rightarrow> monitoring_loop c count ms (st, d))
         else monitoring_loop c count ms (st, d))"

definition wcm_run_monitoring ::
  "codec \<Rightarrow> metrics list \<Rightarrow> ('mdl, 'scl) manager \<times> ('mdl, 'scl) disk
     \<Rightarrow> py_error + ('mdl, 'scl) manager \<times> ('mdl, 'scl) disk" where
  "wcm_run_monitoring c samples sd =
     (case monitoring_loop c 0 samples sd of
        Inl e \<Rightarrow> Inl e
      | Inr (st, d) \<Rightarrow>
          (case wcm_save_metrics c st d of
             Inl e \<Rightarrow> Inl e
           | Inr d \<Rightarrow> Inr (print (Success (''Monitoring complete! Collected ''
                                   @ decimal (length (metrics_history st)) @ '' samples'')) st, d)))"

text \<open>
  \<^verbatim>\<open>ConfigManager.save_metrics\<close> of the Streamlit front end (lines 159-171): append, keep
  the last hundred records, write the file; a failed write is reported and nothing else.
\<close>

definition cm_save_metrics ::
  "codec \<Rightarrow> metrics \<Rightarrow> ('mdl, 'scl) manager \<times> ('mdl, 'scl) disk
     \<Rightarrow> ('mdl, 'scl) manager \<times> ('mdl, 'scl) disk" where
  "cm_save_metrics c m sd =
     (case sd of (st, d) \<Rightarrow>
        (let h = metrics_history st @ [m];
             h = (if length h > 100 then drop (length h - 100) h else h);
             st = st\<lparr>metrics_history := h\<rparr>
         in case write_error d of
              Some msg \<Rightarrow> (print (Failure (''Error saving metrics: '' @ msg)) st, d)
            | None \<Rightarrow> (st, d\<lparr>metrics_json := Some (Text (json_dump c h))\<rparr>)))"

text \<open>
  \<^verbatim>\<open>ConfigManager.load_metrics\<close> (lines 173-182): every exception is caught, nothing is
  printed, and an absent or blank file leaves the history as it is.
\<close>

definition cm_load_metrics ::
  "codec \<Rightarrow> ('mdl, 'scl) disk \<Rightarrow> ('mdl, 'scl) manager
     \<Rightarrow> py_error + ('mdl, 'scl) manager loaded" where
  "cm_load_metrics c d st =
     (case metrics_json d of
        Some f \<Rightarrow>
          (case f of
             Undecodable \<Rightarrow> Inr (Log (st\<lparr>metrics_history := []\<rparr>))
           | Text t \<Rightarrow>
               (let content = strip t in
                if content \<noteq> [] then
                  (case json_loads c content of
                     Inr (Snapshots h) \<Rightarrow> Inr (Log (st\<lparr>metrics_history := h\<rparr>))
                   | Inr (Sized n) \<Rightarrow> Inr (No_log st)
                   | Inr Unsized \<Rightarrow> Inr (No_log st)
                   | Inl e \<Rightarrow> Inr (Log (st\<lparr>metrics_history := []\<rparr>)))
                else Inr (Log st)))
      | None \<Rightarrow> Inr (Log st))"

text \<open>A sequence of samples collected through the Streamlit button, one save each.\<close>

fun cm_collect ::
  "codec \<Rightarrow> metrics list \<Rightarrow> ('mdl, 'scl) manager \<times> ('mdl, 'scl) disk
     \<Rightarrow> ('mdl, 'scl) manager \<times> ('mdl, 'scl) disk" where
  "cm_collect c [] sd = sd"
| "cm_collect c (m # ms) sd = cm_collect c ms (cm_save_metrics c m sd)"

section \<open>Training and prediction\<close>

text \<open>The feature row of a history entry (lines 142-147 and 177-182).\<close>

definition features :: "metrics \<Rightarrow> real list" where
  "features entry =
     [cpu_percent entry, memory_percent entry, disk_percent entry, of_int (process_count entry)]"

text \<open>
  The labels \<^verbatim>\<open>y\<close>: the state of each entry looked up in \<^verbatim>\<open>state_map\<close>; a missing key
  raises \<^verbatim>\<open>KeyError\<close>.
\<close>

fun wcm_labels :: "metrics list \<Rightarrow> py_error + nat list" where
  "wcm_labels [] = Inr []"
| "wcm_labels (entry # es) =
     (case map_of state_map (analyze_system_state entry) of
        None \<Rightarrow> Inl KeyError
      | Some l \<Rightarrow> (case wcm_labels es of Inl e \<Rightarrow> Inl e | Inr ls \<Rightarrow> Inr (l # ls)))"

text \<open>
  \<^verbatim>\<open>WindowsConfigManager.train_model\<close> (lines 131-170).  The result is what the call
  returns or raises, with the manager and the files as the call leaves them.
\<close>

definition wcm_train_model ::
  "('mdl, 'scl) sklearn \<Rightarrow> ('mdl, 'scl) manager \<times> ('mdl, 'scl) disk
     \<Rightarrow> (py_error + bool) \<times> ('mdl, 'scl) manager \<times> ('mdl, 'scl) disk" where
  "wcm_train_model lib sd =
     (case sd of (st, d) \<Rightarrow>
        if length (metrics_history st) < 10 then
          (Inr False,
           print (Warning ''Not enough data to train model (need at least 10 samples)'') st, d)
        else
          (case wcm_labels (metrics_history st) of
             Inl e \<Rightarrow> (Inl e, st, d)
           | Inr y \<Rightarrow>
               (let X = map features (metrics_history st);
                    scl = scaler_fit lib (scaler st) X;
                    st = st\<lparr>scaler := scl\<rparr>;
                    X_scaled = map (scaler_transform lib scl) X;
                    mdl = tree_fit lib X_scaled y;
                    st = st\<lparr>model := Some mdl\<rparr>
                in case write_error d of
                     Some msg \<Rightarrow> (Inl (OSError msg), st, d)
                   | None \<Rightarrow>
                       (Inr True, print (Success ''ML Model trained successfully!'') st,
                        d\<lparr>model_pkl := Some (mdl, scl)\<rparr>))))"

text \<open>\<^verbatim>\<open>WindowsConfigManager.predict_state\<close> (lines 172-188).\<close>

definition wcm_predict_state ::
  "('mdl, 'scl) sklearn \<Rightarrow> ('mdl, 'scl) manager \<Rightarrow> metrics \<Rightarrow> py_error + string option" where
  "wcm_predict_state lib st m =
     (case model st of
        None \<Rightarrow> Inr None
      | Some mdl \<Rightarrow>
          (let X_scaled = scaler_transform lib (scaler st) (features m);
               prediction = tree_predict lib mdl X_scaled
           in case map_of state_map_inv prediction of
                None \<Rightarrow> Inl KeyError
              | Some s \<Rightarrow> Inr (Some s)))"

text \<open>
  \<^verbatim>\<open>ConfigManager.train_model\<close> of the Streamlit front end (lines 184-220), with its own
  \<^verbatim>\<open>state_map\<close> over the labels of \<open>analyze_state\<close>.  It returns a flag and a message, and
  catches the failure of the write.
\<close>

definition cm_state_map :: "(string \<times> nat) list" where
  "cm_state_map = [(''OPTIMAL'', 0), (''MODERATE'', 1), (''HIGH LOAD'', 2), (''CRITICAL'', 3)]"

fun cm_labels :: "metrics list \<Rightarrow> py_error + nat list" where
  "cm_labels [] = Inr []"
| "cm_labels (entry # es) =
     (case map_of cm_state_map (fst (analyze_state entry)) of
        None \<Rightarrow> Inl KeyError
      | Some l \<Rightarrow> (case cm_labels es of Inl e \<Rightarrow> Inl e | Inr ls \<Rightarrow> Inr (l # ls)))"

definition cm_train_model ::
  "('mdl, 'scl) sklearn \<Rightarrow> ('mdl, 'scl) manager \<times> ('mdl, 'scl) disk
     \<Rightarrow> (py_error + bool \<times> string) \<times> ('mdl, 'scl) manager \<times> ('mdl, 'scl) disk" where
  "cm_train_model lib sd =
     (case sd of (st, d) \<Rightarrow>
        if length (metrics_history st) < 10 then
          (Inr (False, ''Need at least 10 samples to train''), st, d)
        else
          (case cm_labels (metrics_history st) of
             Inl e \<Rightarrow> (Inl e, st, d)
           | Inr y \<Rightarrow>
               (let X = map features (metrics_history st);
                    scl = scaler_fit lib (scaler st) X;
                    st = st\<lparr>scaler := scl\<rparr>;
                    X_scaled = map (scaler_transform lib scl) X;
                    mdl = tree_fit lib X_scaled y;
                    st = st\<lparr>model := Some mdl\<rparr>
                in case write_error d of
                     Some msg \<Rightarrow> (Inr (False, ''Error saving model: '' @ msg), st, d)
                   | None \<Rightarrow>
                       (Inr (True, ''Model trained successfully''), st,
                        d\<lparr>model_pkl := Some (mdl, scl)\<rparr>))))"

section \<open>Concrete inputs\<close>

text \<open>
  Stand-ins for the two libraries, used where the code is evaluated at a concrete input:
  a learner that predicts the first training label with a scaler that counts its fits,
  and a codec for histories that repeat one snapshot (it writes a 1 for each entry, and
  reads the text 5 as the number).
\<close>

definition first_label :: "(nat, nat) sklearn" where
  "first_label =
     \<lparr>new_scaler = 0,
      scaler_fit = (\<lambda>scl X. Suc scl),
      scaler_transform = (\<lambda>scl x. x),
      tree_fit = (\<lambda>X y. case y of [] \<Rightarrow> 0 | l # ls \<Rightarrow> l),
      tree_predict = (\<lambda>mdl x. mdl)\<rparr>"

definition tally :: codec where
  "tally =
     \<lparr>json_items = (\<lambda>h. replicate (length h) 49),
      json_loads = (\<lambda>s. if s = ascii ''5'' then Inr Unsized
                        else case s of
                          [] \<Rightarrow> Inl JSONDecodeError
                        | ch # cs \<Rightarrow>
                            if ch = 91 \<and> cs \<noteq> [] \<and> last cs = 93
                               \<and> list_all (\<lambda>x. x = 49) (butlast cs)
                            then Inr (Snapshots (replicate (length cs - 1) (snapshot 10 10)))
                            else Inl JSONDecodeError)\<rparr>"

definition empty_disk :: "(nat, nat) disk" where
  "empty_disk = \<lparr>metrics_json = None, model_pkl = None, write_error = None\<rparr>"

definition sample_procs :: "proc list" where
  "sample_procs =
     [Info \<lparr>info_name = ''a'', info_cpu_percent = 1, info_memory_percent = 2\<rparr>,
      Fails AccessDenied,
      Info \<lparr>info_name = ''b'', info_cpu_percent = 0, info_memory_percent = 0\<rparr>,
      Info \<lparr>info_name = ''c'', info_cpu_percent = 5, info_memory_percent = 1\<rparr>,
      Info \<lparr>info_name = ''d'', info_cpu_percent = 2, info_memory_percent = 1\<rparr>]"

text \<open>
  Snapshots with CPU readings 0, 10, .., 90 in turn (all four states occur among any ten
  in a row) and a memory reading that grows every ten samples; a manager that holds the
  first \<open>n\<close> of them and has no model; a disk that refuses every write.
\<close>

definition samples :: "nat \<Rightarrow> metrics list" where
  "samples n = map (\<lambda>i. snapshot (10 * real (i mod 10)) (real (i div 10))) [0..<n]"

definition manager_with :: "nat \<Rightarrow> (nat, nat) manager" where
  "manager_with n = (init first_label)\<lparr>metrics_history := samples n\<rparr>"


text \<open>
  Disks whose metrics file is blank (a no-break space, a space and a line feed), holds
  text that is no JSON, holds the number 5, or holds bytes that do not decode; and a
  manager that holds three equal snapshots.
\<close>

definition blank_disk :: "(nat, nat) disk" where
  "blank_disk = empty_disk\<lparr>metrics_json := Some (Text [160, 32, 10])\<rparr>"

definition corrupt_disk :: "(nat, nat) disk" where
  "corrupt_disk = empty_disk\<lparr>metrics_json := Some (Text (ascii ''{oops''))\<rparr>"

definition number_disk :: "(nat, nat) disk" where
  "number_disk = empty_disk\<lparr>metrics_json := Some (Text (ascii ''5''))\<rparr>"

definition garbled_disk :: "(nat, nat) disk" where
  "garbled_disk = empty_disk\<lparr>metrics_json := Some Undecodable\<rparr>"

definition three_equal :: "(nat, nat) manager" where
  "three_equal = (init first_label)\<lparr>metrics_history := replicate 3 (snapshot 10 10)\<rparr>"


section \<open>The classifier\<close>

text \<open>
  C2.  Whatever the CPU and memory readings of a snapshot are (in particular within
  0..100), \<open>analyze_system_state\<close> returns one of the four state names, chosen by the
  first matching rule: \<^verbatim>\<open>CRITICAL\<close> exactly when cpu > 80 or memory > 85; otherwise
  \<^verbatim>\<open>HIGH_LOAD\<close> exactly when cpu > 60 or memory > 70; otherwise \<^verbatim>\<open>MODERATE\<close> exactly when
  cpu > 30 or memory > 50; otherwise \<^verbatim>\<open>IDLE\<close>.  The thresholds are strict: a reading at
  80, 60, 30 (CPU) or 85, 70, 50 (memory) stays in the lower band and 0.0001 more leaves it.
  \<open>analyze_state\<close> of the Streamlit front end decides by the same cascade; it shows the
  state \<^verbatim>\<open>IDLE\<close> as \<^verbatim>\<open>OPTIMAL\<close> and \<^verbatim>\<open>HIGH_LOAD\<close> as \<^verbatim>\<open>HIGH LOAD\<close>.
\<close>

theorem classify_cascade:
  "analyze_system_state m \<in> {''IDLE'', ''MODERATE'', ''HIGH_LOAD'', ''CRITICAL''}
   \<and> (analyze_system_state m = ''CRITICAL''
        \<longleftrightarrow> cpu_percent m > 80 \<or> memory_percent m > 85)
   \<and> (analyze_system_state m = ''HIGH_LOAD''
        \<longleftrightarrow> \<not> (cpu_percent m > 80 \<or> memory_percent m > 85)
            \<and> (cpu_percent m > 60 \<or> memory_percent m > 70))
   \<and> (analyze_system_state m = ''MODERATE''
        \<longleftrightarrow> \<not> (cpu_percent m > 80 \<or> memory_percent m > 85)
            \<and> \<not> (cpu_percent m > 60 \<or> memory_percent m > 70)
            \<and> (cpu_percent m > 30 \<or> memory_percent m > 50))
   \<and> (analyze_system_state m = ''IDLE''
        \<longleftrightarrow> \<not> (cpu_percent m > 80 \<or> memory_percent m > 85)
            \<and> \<not> (cpu_percent m > 60 \<or> memory_percent m > 70)
            \<and> \<not> (cpu_percent m > 30 \<or> memory_percent m > 50))
   \<and> analyze_system_state (snapshot 80.0 0) = ''HIGH_LOAD''
   \<and> analyze_system_state (snapshot 80.0001 0) = ''CRITICAL''
   \<and> analyze_system_state (snapshot 60.0 0) = ''MODERATE''
   \<and> analyze_system_state (snapshot 60.0001 0) = ''HIGH_LOAD''
   \<and> analyze_system_state (snapshot 30.0 0) = ''IDLE''
   \<and> analyze_system_state (snapshot 30.0001 0) = ''MODERATE''
   \<and> analyze_system_state (snapshot 0 85.0) = ''HIGH_LOAD''
   \<and> analyze_system_state (snapshot 0 85.0001) = ''CRITICAL''
   \<and> analyze_system_state (snapshot 0 70.0) = ''MODERATE''
   \<and> analyze_system_state (snapshot 0 70.0001) = ''HIGH_LOAD''
   \<and> analyze_system_state (snapshot 0 50.0) = ''IDLE''
   \<and> analyze_system_state (snapshot 0 50.0001) = ''MODERATE''
   \<and> fst (analyze_state m) \<in> {''OPTIMAL'', ''MODERATE'', ''HIGH LOAD'', ''CRITICAL''}
   \<and> (fst (analyze_state m) = ''CRITICAL'' \<longleftrightarrow> analyze_system_state m = ''CRITICAL'')
   \<and> (fst (analyze_state m) = ''HIGH LOAD'' \<longleftrightarrow> analyze_system_state m = ''HIGH_LOAD'')
   \<and> (fst (analyze_state m) = ''MODERATE'' \<longleftrightarrow> analyze_system_state m = ''MODERATE'')
   \<and> (fst (analyze_state m) = ''OPTIMAL'' \<longleftrightarrow> analyze_system_state m = ''IDLE'')"
  by (simp add: analyze_system_state_def analyze_state_def snapshot_def Let_def)


lemma rank_of_state:
  "map_of state_map (analyze_system_state m) =
     Some (if cpu_percent m > 80 \<or> memory_percent m > 85 then 3
           else if cpu_percent m > 60 \<or> memory_percent m > 70 then 2
           else if cpu_percent m > 30 \<or> memory_percent m > 50 then 1
           else 0)"
  by (simp add: analyze_system_state_def Let_def state_map_def)

text \<open>
  C8.  With the severity rank that \<^verbatim>\<open>state_map\<close> gives the states (IDLE 0, MODERATE 1,
  HIGH_LOAD 2, CRITICAL 3): for a fixed memory reading a larger CPU reading never lowers
  the rank of the state, and for a fixed CPU reading a larger memory reading never lowers
  it.
\<close>

theorem classify_monotone:
  assumes "v1 \<le> v2"
  shows "(\<exists>r1 r2. map_of state_map (analyze_system_state (m\<lparr>cpu_percent := v1\<rparr>)) = Some r1
                \<and> map_of state_map (analyze_system_state (m\<lparr>cpu_percent := v2\<rparr>)) = Some r2
                \<and> r1 \<le> r2)
       \<and> (\<exists>r1 r2. map_of state_map (analyze_system_state (m\<lparr>memory_percent := v1\<rparr>)) = Some r1
                \<and> map_of state_map (analyze_system_state (m\<lparr>memory_percent := v2\<rparr>)) = Some r2
                \<and> r1 \<le> r2)"
proof
  show "\<exists>r1 r2. map_of state_map (analyze_system_state (m\<lparr>cpu_percent := v1\<rparr>)) = Some r1
                \<and> map_of state_map (analyze_system_state (m\<lparr>cpu_percent := v2\<rparr>)) = Some r2
                \<and> r1 \<le> r2"
    using assms by (simp add: rank_of_state)
  show "\<exists>r1 r2. map_of state_map (analyze_system_state (m\<lparr>memory_percent := v1\<rparr>)) = Some r1
                \<and> map_of state_map (analyze_system_state (m\<lparr>memory_percent := v2\<rparr>)) = Some r2
                \<and> r1 \<le> r2"
    using assms by (simp add: rank_of_state)
qed

theorem classify_monotone_witness:
  "(10::real) \<le> 90
   \<and> map_of state_map (analyze_system_state ((snapshot 0 20)\<lparr>cpu_percent := 10\<rparr>)) = Some 0
   \<and> map_of state_map (analyze_system_state ((snapshot 0 20)\<lparr>cpu_percent := 90\<rparr>)) = Some 3
   \<and> map_of state_map (analyze_system_state ((snapshot 0 20)\<lparr>memory_percent := 10\<rparr>)) = Some 0
   \<and> map_of state_map (analyze_system_state ((snapshot 0 20)\<lparr>memory_percent := 90\<rparr>)) = Some 3"
  using classify_monotone [of 10 90 "snapshot 0 20"]
  by (simp add: rank_of_state snapshot_def)

section \<open>The process ranking\<close>

lemma collect_processes_filter:
  "collect_processes procs = filter (\<lambda>e. cpu e > 0 \<or> memory e > 0) (entries procs)"
  by (induction procs rule: collect_processes.induct) simp_all

lemma slice_to_take: "\<exists>j. slice_to n xs = take j xs"
  unfolding slice_to_def by (cases "0 \<le> n") auto

lemma sort_reverse_descending:
  "sorted_wrt (\<lambda>a b. key b \<le> key a) (sort_reverse key xs)"
proof -
  have "sorted (map (\<lambda>x. - key x) (sort_key (\<lambda>x. - key x) xs))"
    by (rule sorted_sort_key)
  then show ?thesis
    by (simp add: sort_reverse_def sorted_map)
qed

lemma sort_reverse_stable:
  "filter (\<lambda>e. key e = k) (sort_reverse key xs) = filter (\<lambda>e. key e = k) xs"
proof -
  have "filter (\<lambda>e. - key e = - k) (sort_key (\<lambda>x. - key x) xs)
          = filter (\<lambda>e. - key e = - k) xs"
    by (rule sort_key_stable)
  then show ?thesis
    by (simp add: sort_reverse_def)
qed

text \<open>
  C4.  For every enumeration of processes and every count \<open>n\<close> (no list has \<open>n\<close> entries
  or fewer when \<open>n\<close> is negative, where the slice drops entries from the end instead):
  \<open>get_top_processes\<close> returns at most \<open>n\<close> entries; each has cpu > 0 or memory > 0; they
  are in descending order of cpu + memory; and for every value \<open>k\<close> the returned entries
  with cpu + memory = \<open>k\<close> are the first of the enumerated ones with that sum, in their
  enumeration order.
\<close>

theorem top_processes_ranked:
  "(0 \<le> n \<longrightarrow> int (length (get_top_processes procs n)) \<le> n)
   \<and> (\<forall>e \<in> set (get_top_processes procs n). cpu e > 0 \<or> memory e > 0)
   \<and> sorted_wrt (\<lambda>a b. cpu a + memory a \<ge> cpu b + memory b) (get_top_processes procs n)
   \<and> (\<forall>k. prefix (filter (\<lambda>e. cpu e + memory e = k) (get_top_processes procs n))
                  (filter (\<lambda>e. cpu e + memory e = k \<and> (cpu e > 0 \<or> memory e > 0))
                     (entries procs)))"
proof -
  let ?all = "collect_processes procs"
  let ?sorted = "sort_reverse usage ?all"
  obtain j where r: "get_top_processes procs n = take j ?sorted"
    using slice_to_take [of n ?sorted] by (auto simp: get_top_processes_def)
  have len: "0 \<le> n \<longrightarrow> int (length (get_top_processes procs n)) \<le> n"
    by (auto simp: get_top_processes_def slice_to_def)
  have "set (get_top_processes procs n) \<subseteq> set ?all"
    unfolding r using set_take_subset [of j ?sorted] by (simp add: sort_reverse_def)
  then have pos: "\<forall>e \<in> set (get_top_processes procs n). cpu e > 0 \<or> memory e > 0"
    by (auto simp: collect_processes_filter)
  have "sorted_wrt (\<lambda>a b. usage b \<le> usage a) (take j ?sorted)"
    by (rule sorted_wrt_take) (rule sort_reverse_descending)
  then have desc:
    "sorted_wrt (\<lambda>a b. cpu a + memory a \<ge> cpu b + memory b) (get_top_processes procs n)"
    by (simp add: r usage_def)
  have stable:
    "prefix (filter (\<lambda>e. cpu e + memory e = k) (get_top_processes procs n))
            (filter (\<lambda>e. cpu e + memory e = k \<and> (cpu e > 0 \<or> memory e > 0)) (entries procs))"
    for k
  proof -
    have "prefix (filter (\<lambda>e. usage e = k) (take j ?sorted)) (filter (\<lambda>e. usage e = k) ?sorted)"
      by (rule filter_mono_prefix) (rule take_is_prefix)
    also have "filter (\<lambda>e. usage e = k) ?sorted = filter (\<lambda>e. usage e = k) ?all"
      by (rule sort_reverse_stable)
    also have "\<dots> = filter (\<lambda>e. cpu e + memory e = k \<and> (cpu e > 0 \<or> memory e > 0))
                       (entries procs)"
      by (simp add: collect_processes_filter usage_def conj_commute)
    finally show ?thesis by (simp add: r usage_def)
  qed
  from len pos desc stable show ?thesis by blast
qed

theorem top_processes_ranked_witness:
  "(0::int) \<le> 2
   \<and> int (length (get_top_processes sample_procs 2)) \<le> 2
   \<and> get_top_processes sample_procs 2 =
       [\<lparr>name = ''c'', cpu = 5, memory = 1\<rparr>, \<lparr>name = ''a'', cpu = 1, memory = 2\<rparr>]
   \<and> get_top_processes sample_procs 5 =
       [\<lparr>name = ''c'', cpu = 5, memory = 1\<rparr>, \<lparr>name = ''a'', cpu = 1, memory = 2\<rparr>,
        \<lparr>name = ''d'', cpu = 2, memory = 1\<rparr>]"
proof -
  have "int (length (get_top_processes sample_procs 2)) \<le> 2"
    using top_processes_ranked [of 2 sample_procs] by simp
  then show ?thesis
    by (simp add: get_top_processes_def sample_procs_def sort_reverse_def slice_to_def usage_def)
qed

text \<open>Fewer than \<open>n\<close> entries are returned only when fewer qualify.\<close>

lemma top_processes_count:
  assumes "0 \<le> n"
  shows "length (get_top_processes procs n) =
           min (nat n) (length (filter (\<lambda>e. cpu e > 0 \<or> memory e > 0) (entries procs)))"
proof -
  show ?thesis
    using assms collect_processes_filter [of procs] by (simp add: get_top_processes_def slice_to_def sort_reverse_def min.commute)
qed

section \<open>Recommendations and priority\<close>

lemma wcm_priority:
  "wcm_get_recommendations procs m s ''priority'' =
     Some (Str (if s = ''CRITICAL'' then ''CRITICAL''
                else if s = ''HIGH_LOAD'' then ''HIGH''
                else if s = ''MODERATE'' then ''MEDIUM''
                else ''LOW''))"
  by (simp add: wcm_get_recommendations_def with_actions_def Let_def)

lemma wcm_state:
  "wcm_get_recommendations procs m s ''state'' = Some (Str s)"
  by (simp add: wcm_get_recommendations_def with_actions_def Let_def)

text \<open>
  C3, as it fails: the recommendation that \<^verbatim>\<open>get_recommendations\<close> of the dashboard
  builds for the state \<^verbatim>\<open>CRITICAL\<close> has no priority at all.
\<close>

theorem dash_recommendation_without_priority:
  "dash_get_recommendations (snapshot 90 50) ''CRITICAL'' ''state'' = Some (Str ''CRITICAL'')
   \<and> dash_get_recommendations (snapshot 90 50) ''CRITICAL'' ''priority'' = None"
  by (simp add: dash_get_recommendations_def)

text \<open>
  C3, amended.  Every recommendation that \<^verbatim>\<open>WindowsConfigManager.get_recommendations\<close>
  builds carries the state it was given and a priority out of LOW, MEDIUM, HIGH and
  CRITICAL: CRITICAL for the state \<^verbatim>\<open>CRITICAL\<close> and for no other, HIGH for \<^verbatim>\<open>HIGH_LOAD\<close>
  and for no other, MEDIUM for \<^verbatim>\<open>MODERATE\<close> and for no other, LOW for \<^verbatim>\<open>IDLE\<close>, which is
  the only state of the classifier that gets it.
\<close>

theorem wcm_priority_matches_state:
  "wcm_get_recommendations procs m s ''state'' = Some (Str s)
   \<and> wcm_get_recommendations procs m ''CRITICAL'' ''priority'' = Some (Str ''CRITICAL'')
   \<and> wcm_get_recommendations procs m ''HIGH_LOAD'' ''priority'' = Some (Str ''HIGH'')
   \<and> wcm_get_recommendations procs m ''MODERATE'' ''priority'' = Some (Str ''MEDIUM'')
   \<and> wcm_get_recommendations procs m ''IDLE'' ''priority'' = Some (Str ''LOW'')
   \<and> (wcm_get_recommendations procs m s ''priority'' = Some (Str ''CRITICAL'')
        \<longleftrightarrow> s = ''CRITICAL'')
   \<and> (wcm_get_recommendations procs m s ''priority'' = Some (Str ''HIGH'')
        \<longleftrightarrow> s = ''HIGH_LOAD'')
   \<and> (wcm_get_recommendations procs m s ''priority'' = Some (Str ''MEDIUM'')
        \<longleftrightarrow> s = ''MODERATE'')
   \<and> (wcm_get_recommendations procs m (analyze_system_state m') ''priority''
          = Some (Str ''LOW'')
        \<longleftrightarrow> analyze_system_state m' = ''IDLE'')
   \<and> wcm_get_recommendations procs m s ''priority''
        \<in> {Some (Str ''LOW''), Some (Str ''MEDIUM''), Some (Str ''HIGH''),
            Some (Str ''CRITICAL'')}"
proof -
  have states: "analyze_system_state m' \<in> {''IDLE'', ''MODERATE'', ''HIGH_LOAD'', ''CRITICAL''}"
    by (simp add: analyze_system_state_def Let_def)
  have low:
    "wcm_get_recommendations procs m (analyze_system_state m') ''priority'' = Some (Str ''LOW'')
       \<longleftrightarrow> analyze_system_state m' = ''IDLE''"
    using states by (auto simp add: wcm_priority)
  show ?thesis
    unfolding low by (simp add: wcm_priority wcm_state)
qed

section \<open>The bound on the history\<close>

lemma keep_last_append:
  "drop (length (drop (length xs - n) xs @ ys) - n) (drop (length xs - n) xs @ ys)
     = drop (length (xs @ ys) - n) (xs @ ys)"
proof (cases "length xs \<le> n")
  case True
  then show ?thesis by simp
next
  case False
  define k where "k = length xs - n"
  have k: "length xs = k + n" using False by (simp add: k_def)
  have "drop (length (xs @ ys) - n) (xs @ ys) = drop (length ys + k) (xs @ ys)"
    by (simp add: k add.commute)
  also have "\<dots> = drop (length ys) (drop k (xs @ ys))"
    by (simp only: drop_drop)
  also have "\<dots> = drop (length ys) (drop k xs @ ys)"
    by (simp add: k)
  finally show ?thesis
    by (simp add: k_def [symmetric] k)
qed

lemma cm_save_history:
  "metrics_history (fst (cm_save_metrics c m (st, d))) =
     drop (length (metrics_history st @ [m]) - 100) (metrics_history st @ [m])"
  by (simp add: cm_save_metrics_def Let_def print_def split: option.splits)

lemma cm_save_bounded:
  "length (metrics_history (fst (cm_save_metrics c m sd))) \<le> 100"
  by (cases sd) (simp add: cm_save_history)

lemma cm_collect_history:
  "ms \<noteq> [] \<Longrightarrow>
   metrics_history (fst (cm_collect c ms (st, d))) =
     drop (length (metrics_history st @ ms) - 100) (metrics_history st @ ms)"
proof (induction ms arbitrary: st d)
  case Nil
  then show ?case by simp
next
  case (Cons m ms)
  obtain st1 d1 where s1: "cm_save_metrics c m (st, d) = (st1, d1)"
    by (cases "cm_save_metrics c m (st, d)")
  have h1: "metrics_history st1 =
      drop (length (metrics_history st @ [m]) - 100) (metrics_history st @ [m])"
    using cm_save_history [of c m st d] by (simp add: s1)
  show ?case
  proof (cases "ms = []")
    case True
    then show ?thesis using h1 by (simp add: s1)
  next
    case False
    then have "metrics_history (fst (cm_collect c ms (st1, d1))) =
        drop (length (metrics_history st1 @ ms) - 100) (metrics_history st1 @ ms)"
      by (rule Cons.IH)
    also have "\<dots> = drop (length ((metrics_history st @ [m]) @ ms) - 100)
                        ((metrics_history st @ [m]) @ ms)"
      unfolding h1 by (rule keep_last_append)
    finally show ?thesis
      by (simp add: s1)
  qed
qed


text \<open>
  The Windows manager only appends: when the file can be written, a monitoring run
  leaves the old history followed by every collected sample, in memory and on disk.
\<close>

lemma monitoring_loop_appends:
  "write_error d = None \<Longrightarrow>
   \<exists>st' d'. monitoring_loop c count ms (st, d) = Inr (st', d')
      \<and> metrics_history st' = metrics_history st @ ms \<and> write_error d' = None"
proof (induction ms arbitrary: count st d)
  case Nil
  then show ?case by simp
next
  case (Cons m ms)
  let ?st = "st\<lparr>metrics_history := metrics_history st @ [m]\<rparr>"
  show ?case
  proof (cases "Suc count mod 3 = 0")
    case True
    let ?d = "d\<lparr>metrics_json := Some (Text (json_dump c (metrics_history ?st)))\<rparr>"
    have "write_error ?d = None" using Cons.prems by simp
    from Cons.IH [OF this, of "Suc count" ?st]
    show ?thesis using True Cons.prems by (simp add: wcm_save_metrics_def)
  next
    case False
    from Cons.IH [OF Cons.prems, of "Suc count" ?st]
    show ?thesis using False by simp
  qed
qed

lemma wcm_run_monitoring_appends:
  assumes "write_error d = None"
  shows "\<exists>st' d'. wcm_run_monitoring c ms (st, d) = Inr (st', d')
           \<and> metrics_history st' = metrics_history st @ ms
           \<and> metrics_json d' = Some (Text (json_dump c (metrics_history st @ ms)))"
proof -
  obtain st1 d1 where l: "monitoring_loop c 0 ms (st, d) = Inr (st1, d1)"
      "metrics_history st1 = metrics_history st @ ms" "write_error d1 = None"
    using monitoring_loop_appends [OF assms] by blast
  then show ?thesis
    by (simp add: wcm_run_monitoring_def wcm_save_metrics_def print_def)
qed

text \<open>
  C1, as it fails: \<^verbatim>\<open>WindowsConfigManager.run_monitoring\<close> appends without evicting, so
  101 samples collected by a new manager leave a history of 101 entries.
\<close>

theorem wcm_history_exceeds_bound:
  "\<not> isl (wcm_run_monitoring tally (replicate 101 (snapshot 10 10))
             (init first_label, empty_disk))
   \<and> length (metrics_history (fst (projr
        (wcm_run_monitoring tally (replicate 101 (snapshot 10 10))
           (init first_label, empty_disk))))) = 101"
  by code_simp

text \<open>
  C1, amended.  After every append made through \<^verbatim>\<open>ConfigManager.save_metrics\<close> (the
  Streamlit front end), whatever the history was before, the history has at most 100
  entries; a new manager that appends the snapshots \<open>ms\<close> one after the other holds the
  last 100 of them in their order, so after 150 appends exactly the last 100.
\<close>

theorem cm_history_bounded:
  "length (metrics_history (fst (cm_save_metrics c m sd))) \<le> 100
   \<and> metrics_history (fst (cm_collect c ms (init lib, d))) = drop (length ms - 100) ms
   \<and> (length ms = 150 \<longrightarrow>
        metrics_history (fst (cm_collect c ms (init lib, d))) = drop 50 ms
        \<and> length (metrics_history (fst (cm_collect c ms (init lib, d)))) = 100)"
proof -
  have all: "metrics_history (fst (cm_collect c ms (init lib, d))) = drop (length ms - 100) ms"
  proof (cases "ms = []")
    case True
    then show ?thesis by (simp add: init_def)
  next
    case False
    then show ?thesis
      using cm_collect_history [of ms c "init lib" d] by (simp add: init_def)
  qed
  show ?thesis
    unfolding all by (simp add: cm_save_bounded)
qed

theorem cm_history_bounded_witness:
  "length (samples 150) = 150
   \<and> metrics_history (fst (cm_collect tally (samples 150) (init first_label, empty_disk)))
       = drop 50 (samples 150)
   \<and> length (metrics_history (fst (cm_collect tally (samples 150)
                (init first_label, empty_disk)))) = 100"
proof -
  have len: "length (samples 150) = 150"
    by (simp add: samples_def)
  from cm_history_bounded [of tally "snapshot 0 0" "(init first_label, empty_disk)"
      "samples 150" first_label empty_disk]
  show ?thesis
    using len by blast
qed

section \<open>Training\<close>

lemma wcm_labels_total:
  "\<exists>y. wcm_labels h = Inr y \<and> length y = length h \<and> set y \<subseteq> {0, 1, 2, 3}"
proof (induction h)
  case Nil
  then show ?case by simp
next
  case (Cons entry es)
  then obtain ls where
    "wcm_labels es = Inr ls" "length ls = length es" "set ls \<subseteq> {0, 1, 2, 3}"
    by blast
  then show ?case
    by (simp add: rank_of_state)
qed





text \<open>
  C9.  \<^verbatim>\<open>train_model\<close> of either manager leaves the history as it was, entry for entry,
  and does not touch the metrics file, whether it returns for want of samples, fits a
  model, or stops at the write of the model file.
\<close>

theorem train_model_keeps_history:
  "metrics_history (fst (snd (wcm_train_model lib (st, d)))) = metrics_history st
   \<and> metrics_json (snd (snd (wcm_train_model lib (st, d)))) = metrics_json d
   \<and> metrics_history (fst (snd (cm_train_model lib (st, d)))) = metrics_history st
   \<and> metrics_json (snd (snd (cm_train_model lib (st, d)))) = metrics_json d"
  by (simp add: wcm_train_model_def cm_train_model_def Let_def print_def
      split: sum.splits option.splits)

section \<open>Prediction\<close>

lemma in_state_names:
  assumes "n < 4"
  shows "\<exists>s \<in> {''IDLE'', ''MODERATE'', ''HIGH_LOAD'', ''CRITICAL''}.
           map_of state_map_inv n = Some s"
proof -
  from assms have "n = 0 \<or> n = 1 \<or> n = 2 \<or> n = 3" by arith
  then show ?thesis by (auto simp: state_map_inv_def)
qed

text \<open>
  C10.  The decision tree of scikit-learn predicts one of the labels it was fitted on;
  that is the hypothesis on the library.  Then \<^verbatim>\<open>predict_state\<close> returns \<^verbatim>\<open>None\<close> when the
  manager has no model, and when its model and scaler are those that \<^verbatim>\<open>train_model\<close> left
  (run on a history of at least 10 entries, whether or not the model file could be
  written), the predicted class is below 4 for every snapshot, the lookup does not raise
  and the result is one of the four state names.
\<close>

theorem predict_state_total:
  assumes contract: "\<And>X y x. y \<noteq> [] \<Longrightarrow> tree_predict lib (tree_fit lib X y) x \<in> set y"
  shows "(model st = None \<longrightarrow> wcm_predict_state lib st m = Inr None)
       \<and> (10 \<le> length (metrics_history st0)
            \<and> model st = model (fst (snd (wcm_train_model lib (st0, d))))
            \<and> scaler st = scaler (fst (snd (wcm_train_model lib (st0, d))))
          \<longrightarrow> (\<exists>mdl. model st = Some mdl
                 \<and> tree_predict lib mdl (scaler_transform lib (scaler st) (features m)) < 4)
              \<and> (\<exists>s \<in> {''IDLE'', ''MODERATE'', ''HIGH_LOAD'', ''CRITICAL''}.
                    wcm_predict_state lib st m = Inr (Some s)))"
proof (intro conjI impI)
  assume "model st = None"
  then show "wcm_predict_state lib st m = Inr None"
    by (simp add: wcm_predict_state_def)
next
  assume a: "10 \<le> length (metrics_history st0)
            \<and> model st = model (fst (snd (wcm_train_model lib (st0, d))))
            \<and> scaler st = scaler (fst (snd (wcm_train_model lib (st0, d))))"
  obtain y where y: "wcm_labels (metrics_history st0) = Inr y"
      "length y = length (metrics_history st0)" "set y \<subseteq> {0, 1, 2, 3}"
    using wcm_labels_total [of "metrics_history st0"] by blast
  from a y(2) have ne: "y \<noteq> []" by auto
  define X where "X = map (scaler_transform lib (scaler_fit lib (scaler st0)
      (map features (metrics_history st0)))) (map features (metrics_history st0))"
  have mdl: "model st = Some (tree_fit lib X y)"
    using a by (cases "write_error d")
      (simp_all add: wcm_train_model_def Let_def print_def y X_def)
  let ?p = "tree_predict lib (tree_fit lib X y) (scaler_transform lib (scaler st) (features m))"
  have "?p \<in> set y" using contract [OF ne] .
  with y(3) have lt: "?p < 4" by auto
  show "\<exists>mdl. model st = Some mdl
          \<and> tree_predict lib mdl (scaler_transform lib (scaler st) (features m)) < 4"
    using mdl lt by simp
  from in_state_names [OF lt]
  show "\<exists>s \<in> {''IDLE'', ''MODERATE'', ''HIGH_LOAD'', ''CRITICAL''}.
           wcm_predict_state lib st m = Inr (Some s)"
    by (auto simp add: wcm_predict_state_def mdl Let_def)
qed

theorem predict_state_total_witness:
  "model (manager_with 10) = None
   \<and> wcm_predict_state first_label (manager_with 10) (snapshot 95 2) = Inr None
   \<and> 10 \<le> length (metrics_history (manager_with 10))
   \<and> wcm_predict_state first_label
        (fst (snd (wcm_train_model first_label (manager_with 10, empty_disk)))) (snapshot 95 2)
       \<in> {Inr (Some ''IDLE''), Inr (Some ''MODERATE''), Inr (Some ''HIGH_LOAD''),
           Inr (Some ''CRITICAL'')}"
proof -
  have c: "tree_predict first_label (tree_fit first_label X y) x \<in> set y"
    if "y \<noteq> []" for X :: "real list list" and y and x :: "real list"
    using that by (cases y) (simp_all add: first_label_def)
  have none: "model (manager_with 10) = None"
    and len: "10 \<le> length (metrics_history (manager_with 10))"
    by (simp_all add: manager_with_def init_def samples_def)
  from predict_state_total [of first_label "manager_with 10" "snapshot 95 2", OF c]
  have p1: "wcm_predict_state first_label (manager_with 10) (snapshot 95 2) = Inr None"
    using none by blast
  from predict_state_total [of first_label
      "fst (snd (wcm_train_model first_label (manager_with 10, empty_disk)))"
      "snapshot 95 2" "manager_with 10" empty_disk, OF c]
  have p2: "\<exists>s \<in> {''IDLE'', ''MODERATE'', ''HIGH_LOAD'', ''CRITICAL''}.
      wcm_predict_state first_label
        (fst (snd (wcm_train_model first_label (manager_with 10, empty_disk)))) (snapshot 95 2)
       = Inr (Some s)"
    using len by blast
  from p2 have "wcm_predict_state first_label
        (fst (snd (wcm_train_model first_label (manager_with 10, empty_disk)))) (snapshot 95 2)
       \<in> {Inr (Some ''IDLE''), Inr (Some ''MODERATE''), Inr (Some ''HIGH_LOAD''),
           Inr (Some ''CRITICAL'')}"
    by auto
  with none p1 len show ?thesis by blast
qed

section \<open>Persistence of the history\<close>

lemma strip_json_dump: "strip (json_dump c h) = json_dump c h"
  by (simp add: strip_def json_dump_def is_space_def ascii_def)

lemma json_dump_not_blank: "json_dump c h \<noteq> []"
  by (simp add: json_dump_def ascii_def)

text \<open>
  C6.  A history is well formed when the JSON codec gives it back: \<^verbatim>\<open>json.loads\<close> of what
  \<^verbatim>\<open>json.dump\<close> writes for it is the history again.  For such a history, empty or not,
  \<^verbatim>\<open>save_metrics\<close> of the Windows manager (the file being writable) replaces the content
  of the metrics file, whatever it was, by the dump of the whole history, and
  \<^verbatim>\<open>load_metrics\<close> run right after, by any manager, does not raise and leaves that manager
  with the history that was saved.
\<close>

theorem metrics_round_trip:
  assumes "json_loads c (json_dump c (metrics_history st)) = Inr (Snapshots (metrics_history st))"
      and "write_error d = None"
  shows "\<exists>d' st''. wcm_save_metrics c st d = Inr d'
           \<and> metrics_json d' = Some (Text (json_dump c (metrics_history st)))
           \<and> wcm_load_metrics c d' st' = Inr (Log st'')
           \<and> metrics_history st'' = metrics_history st"
  using assms
  by (simp add: wcm_save_metrics_def wcm_load_metrics_def Let_def print_def
      strip_json_dump json_dump_not_blank)

theorem metrics_round_trip_witness:
  "json_loads tally (json_dump tally (metrics_history three_equal))
     = Inr (Snapshots (metrics_history three_equal))
   \<and> write_error corrupt_disk = None
   \<and> metrics_history three_equal = replicate 3 (snapshot 10 10)
   \<and> (\<exists>d' st''. wcm_save_metrics tally three_equal corrupt_disk = Inr d'
         \<and> metrics_json d' = Some (Text (ascii ''[111]''))
         \<and> wcm_load_metrics tally d' (init first_label) = Inr (Log st'')
         \<and> metrics_history st'' = replicate 3 (snapshot 10 10))"
proof -
  have h: "metrics_history three_equal = replicate 3 (snapshot 10 10)"
    by (simp add: three_equal_def)
  have dump: "json_dump tally (replicate 3 (snapshot 10 10)) = ascii ''[111]''"
    by (simp add: json_dump_def tally_def ascii_def numeral_3_eq_3)
  have rt: "json_loads tally (json_dump tally (metrics_history three_equal))
      = Inr (Snapshots (metrics_history three_equal))"
    unfolding h dump by (simp add: tally_def ascii_def numeral_3_eq_3)
  have w: "write_error corrupt_disk = None"
    by (simp add: corrupt_disk_def empty_disk_def)
  from metrics_round_trip [OF rt w, of "init first_label"]
  show ?thesis
    using rt w h dump by simp
qed

section \<open>Restoring the history\<close>

text \<open>
  C7, as it fails: the Streamlit manager reads a blank metrics file and reports nothing;
  it comes back as it was constructed, with an empty console.
\<close>

theorem cm_load_metrics_silent:
  "metrics_json blank_disk = Some (Text [160, 32, 10])
   \<and> cm_load_metrics tally blank_disk (init first_label) = Inr (Log (init first_label))
   \<and> console (init first_label) = []"
  by (simp add: cm_load_metrics_def strip_def is_space_def blank_disk_def empty_disk_def
      init_def)

text \<open>
  C7, amended.  \<^verbatim>\<open>ConfigManager.load_metrics\<close> (Streamlit) never raises, whatever the
  metrics file holds and whatever \<^verbatim>\<open>json.loads\<close> does with it, and reports nothing; a
  newly constructed manager is left with an empty history when the file is absent, cannot
  be decoded, is blank or makes \<^verbatim>\<open>json.loads\<close> raise.
  \<^verbatim>\<open>WindowsConfigManager.load_metrics\<close> returns without raising in three cases: on an
  absent file it prints a notice and keeps the history (empty on a new manager); on a blank
  file, and on text that \<^verbatim>\<open>json.loads\<close> rejects with \<^verbatim>\<open>JSONDecodeError\<close>, it prints a
  warning and empties the history.
\<close>

theorem load_metrics_falls_back:
  "(\<exists>r. cm_load_metrics c d st = Inr r \<and> console (manager_after r) = console st)
   \<and> (metrics_json d = None \<or> metrics_json d = Some Undecodable
        \<or> (\<exists>t. metrics_json d = Some (Text t)
                \<and> (strip t = [] \<or> isl (json_loads c (strip t))))
      \<longrightarrow> cm_load_metrics c d (init lib) = Inr (Log (init lib))
          \<and> metrics_history (init lib) = [])
   \<and> (metrics_json d = None \<longrightarrow>
        wcm_load_metrics c d st
          = Inr (Log (print (Notice ''No previous data found, starting fresh'') st))
        \<and> metrics_history (print (Notice ''No previous data found, starting fresh'') st)
            = metrics_history st
        \<and> metrics_history (init lib) = [])
   \<and> (\<forall>t. metrics_json d = Some (Text t) \<and> strip t = [] \<longrightarrow>
        wcm_load_metrics c d st
          = Inr (Log ((print (Warning ''Empty metrics file, starting fresh'') st)
                        \<lparr>metrics_history := []\<rparr>)))
   \<and> (\<forall>t. metrics_json d = Some (Text t) \<and> strip t \<noteq> []
            \<and> json_loads c (strip t) = Inl JSONDecodeError
        \<longrightarrow> wcm_load_metrics c d st
          = Inr (Log ((print (Warning ''Corrupted metrics file, starting fresh'') st)
                        \<lparr>metrics_history := []\<rparr>)))"
proof -
  have silent: "\<exists>r. cm_load_metrics c d st = Inr r \<and> console (manager_after r) = console st"
    by (simp add: cm_load_metrics_def Let_def
        split: option.splits file_text.splits sum.splits parsed.splits)
  have fresh: "cm_load_metrics c d (init lib) = Inr (Log (init lib))"
    if "metrics_json d = None \<or> metrics_json d = Some Undecodable
        \<or> (\<exists>t. metrics_json d = Some (Text t)
                \<and> (strip t = [] \<or> isl (json_loads c (strip t))))"
    using that
    by (auto simp add: cm_load_metrics_def Let_def init_def isl_def
        split: option.splits file_text.splits sum.splits parsed.splits)
  have windows:
    "metrics_json d = None \<longrightarrow>
        wcm_load_metrics c d st
          = Inr (Log (print (Notice ''No previous data found, starting fresh'') st))"
    "\<forall>t. metrics_json d = Some (Text t) \<and> strip t = [] \<longrightarrow>
        wcm_load_metrics c d st
          = Inr (Log ((print (Warning ''Empty metrics file, starting fresh'') st)
                        \<lparr>metrics_history := []\<rparr>))"
    "\<forall>t. metrics_json d = Some (Text t) \<and> strip t \<noteq> []
            \<and> json_loads c (strip t) = Inl JSONDecodeError
        \<longrightarrow> wcm_load_metrics c d st
          = Inr (Log ((print (Warning ''Corrupted metrics file, starting fresh'') st)
                        \<lparr>metrics_history := []\<rparr>))"
    by (simp_all add: wcm_load_metrics_def Let_def)
  have frame:
    "metrics_history (print (Notice ''No previous data found, starting fresh'') st)
       = metrics_history st"
    "metrics_history (init lib) = []"
    by (simp_all add: print_def init_def)
  from silent fresh windows frame show ?thesis by blast
qed

theorem load_metrics_falls_back_witness:
  "metrics_json empty_disk = None
   \<and> wcm_load_metrics tally empty_disk (init first_label)
       = Inr (Log (print (Notice ''No previous data found, starting fresh'')
                     (init first_label)))
   \<and> metrics_json blank_disk = Some (Text [160, 32, 10]) \<and> strip [160, 32, 10] = []
   \<and> wcm_load_metrics tally blank_disk three_equal
       = Inr (Log ((print (Warning ''Empty metrics file, starting fresh'') three_equal)
                     \<lparr>metrics_history := []\<rparr>))
   \<and> metrics_json corrupt_disk = Some (Text (ascii ''{oops''))
   \<and> strip (ascii ''{oops'') = ascii ''{oops''
   \<and> json_loads tally (ascii ''{oops'') = Inl JSONDecodeError
   \<and> wcm_load_metrics tally corrupt_disk three_equal
       = Inr (Log ((print (Warning ''Corrupted metrics file, starting fresh'') three_equal)
                     \<lparr>metrics_history := []\<rparr>))
   \<and> cm_load_metrics tally corrupt_disk (init first_label) = Inr (Log (init first_label))
   \<and> cm_load_metrics tally garbled_disk (init first_label) = Inr (Log (init first_label))
   \<and> metrics_history (init first_label) = []"
proof -
  have f: "metrics_json empty_disk = None"
      "metrics_json blank_disk = Some (Text [160, 32, 10])"
      "metrics_json corrupt_disk = Some (Text (ascii ''{oops''))"
      "metrics_json garbled_disk = Some Undecodable"
    by (simp_all add: empty_disk_def blank_disk_def corrupt_disk_def garbled_disk_def)
  have s: "strip [160, 32, 10] = []" "strip (ascii ''{oops'') = ascii ''{oops''"
    by (simp_all add: strip_def is_space_def ascii_def)
  have j: "json_loads tally (ascii ''{oops'') = Inl JSONDecodeError"
    by (simp add: tally_def ascii_def)
  have ne: "strip (ascii ''{oops'') \<noteq> []"
    by (simp add: s(2)) (simp add: ascii_def)
  have a: "wcm_load_metrics tally empty_disk (init first_label)
       = Inr (Log (print (Notice ''No previous data found, starting fresh'')
                     (init first_label)))"
    using load_metrics_falls_back [of tally empty_disk "init first_label" first_label] f(1)
    by (elim conjE) simp
  have b: "wcm_load_metrics tally blank_disk three_equal
       = Inr (Log ((print (Warning ''Empty metrics file, starting fresh'') three_equal)
                     \<lparr>metrics_history := []\<rparr>))"
    using load_metrics_falls_back [of tally blank_disk three_equal first_label] f(2) s(1)
    by (elim conjE) simp
  have c: "wcm_load_metrics tally corrupt_disk three_equal
       = Inr (Log ((print (Warning ''Corrupted metrics file, starting fresh'') three_equal)
                     \<lparr>metrics_history := []\<rparr>))"
    using load_metrics_falls_back [of tally corrupt_disk three_equal first_label] f(3) s(2) j ne
    by (elim conjE) simp
  have d: "cm_load_metrics tally corrupt_disk (init first_label) = Inr (Log (init first_label))"
    using load_metrics_falls_back [of tally corrupt_disk three_equal first_label] f(3) s(2) j
    by (elim conjE) simp
  have e: "cm_load_metrics tally garbled_disk (init first_label) = Inr (Log (init first_label))
      \<and> metrics_history (init first_label) = []"
    using load_metrics_falls_back [of tally garbled_disk three_equal first_label] f(4)
    by (elim conjE) simp
  from f s j a b c d e show ?thesis by simp
qed

text \<open>
  What the amended C7 leaves open for the Windows manager.  On a metrics file whose bytes
  do not decode, the read raises an error that is no \<^verbatim>\<open>JSONDecodeError\<close>; on a file that
  holds a number, \<^verbatim>\<open>json.loads\<close> returns it and \<^verbatim>\<open>len\<close> on line 203 raises \<^verbatim>\<open>TypeError\<close>;
  any other error of \<^verbatim>\<open>json.loads\<close> passes as well.  The method lets all of them out,
  where the Streamlit manager returns.
\<close>

lemma wcm_load_metrics_undecodable:
  "wcm_load_metrics tally garbled_disk (init first_label) = Inl UnicodeDecodeError"
  by (simp add: wcm_load_metrics_def garbled_disk_def empty_disk_def)

lemma wcm_load_metrics_number:
  "wcm_load_metrics tally number_disk (init first_label) = Inl TypeError"
  by (simp add: wcm_load_metrics_def number_disk_def empty_disk_def strip_def is_space_def
      ascii_def tally_def)

lemma wcm_load_metrics_raises:
  assumes "metrics_json d = Some (Text t)" and "strip t \<noteq> []"
  shows "json_loads c (strip t) = Inr Unsized \<Longrightarrow> wcm_load_metrics c d st = Inl TypeError"
    and "json_loads c (strip t) = Inl e \<Longrightarrow> e \<noteq> JSONDecodeError
           \<Longrightarrow> wcm_load_metrics c d st = Inl e"
  using assms by (simp_all add: wcm_load_metrics_def Let_def)

lemma cm_load_metrics_number:
  "cm_load_metrics tally number_disk (init first_label) = Inr (No_log (init first_label))"
  by (simp add: cm_load_metrics_def number_disk_def empty_disk_def strip_def is_space_def
      ascii_def tally_def)

end
